theory Spec2Isabelle
  imports Complex_Main
begin

section \<open>Values shared by the registry and the screens\<close>

text \<open>
  A JavaScript exception is a value. \<open>Error m\<close> is \<^verbatim>\<open>new Error(m)\<close> thrown by the
  application code; \<open>TypeError\<close> is what reading a property of \<^verbatim>\<open>null\<close> or
  \<^verbatim>\<open>undefined\<close> throws; \<open>Rejection c\<close> is the reason with which the promise returned by
  the platform call named \<open>c\<close> rejects (AsyncStorage, expo-av, expo-file-system, fetch,
  JSON.parse).
\<close>

datatype js_error = Error string | TypeError | Rejection string

text \<open>
  Whether one platform call resolves or rejects, and with which value, is decided by the
  platform, not by the code: each handler takes the outcome of the calls it awaits as an
  argument. \<open>io\<close> is the outcome of a call awaited for its effect only.
\<close>

datatype io = Resolves | Rejects

datatype 'a promise = Resolved 'a | Rejected

text \<open>
  The calls a handler makes to the outside world, in the order it makes them. Handles of
  \<^verbatim>\<open>Audio.Recording\<close> and \<^verbatim>\<open>Audio.Sound\<close> objects are numbers. Creating and
  stopping a capture are recorded with their outcome. \<open>AlertErrorMessage t e d\<close> is
  \<^verbatim>\<open>Alert.alert(t, e.message || d)\<close>; \<open>SetAudioMode b\<close> is
  \<^verbatim>\<open>Audio.setAudioModeAsync\<close> with \<^verbatim>\<open>allowsRecordingIOS: b\<close>; \<open>Fetch url uri\<close> is the
  POST to \<open>url\<close> of the multipart body whose \<^verbatim>\<open>file\<close> field refers to \<open>uri\<close>.
  \<^verbatim>\<open>console.log\<close> calls are not traced.
\<close>

type_synonym capture_handle = nat
type_synonym sound_handle = nat

datatype effect =
    Alert "string list"
  | AlertErrorMessage string js_error string
  | ConsoleError string js_error
  | ConsoleErrorText "string list"
  | RequestPermissions
  | SetAudioMode bool
  | CreateRecording "capture_handle promise"
  | StopAndUnload capture_handle io
  | GetStatus capture_handle
  | UnloadSound sound_handle
  | GetInfo string
  | Fetch string string

section \<open>The Recording entity (types/recording.ts)\<close>

text \<open>
  \<^verbatim>\<open>interface Recording { id; uri; duration; timestamp; summary?; title }\<close>.
  JavaScript numbers are modelled as reals; the optional \<^verbatim>\<open>summary\<close> is an option.
  The field \<^verbatim>\<open>id\<close> is named \<open>id'\<close> because \<open>id\<close> is the identity function of HOL.
\<close>

record Recording =
  id' :: string
  uri :: string
  duration :: real
  timestamp :: real
  summary :: "string option"
  title :: string

text \<open>
  \<^verbatim>\<open>Partial<Recording>\<close>: every key may be absent (\<open>None\<close>). A present \<^verbatim>\<open>summary\<close> key
  may hold \<^verbatim>\<open>undefined\<close>, which reads like an absent summary (\<open>Some None\<close>).
\<close>

record Partial_Recording =
  id_key :: "string option"
  uri_key :: "string option"
  duration_key :: "real option"
  timestamp_key :: "real option"
  summary_key :: "string option option"
  title_key :: "string option"

text \<open>The object spread \<^verbatim>\<open>{ ...recording, ...updates }\<close>: keys of \<open>updates\<close> win.\<close>

definition spread :: "Recording \<Rightarrow> Partial_Recording \<Rightarrow> Recording" where
  "spread recording updates =
     \<lparr> id' = (case id_key updates of None \<Rightarrow> id' recording | Some v \<Rightarrow> v),
       uri = (case uri_key updates of None \<Rightarrow> uri recording | Some v \<Rightarrow> v),
       duration = (case duration_key updates of None \<Rightarrow> duration recording | Some v \<Rightarrow> v),
       timestamp = (case timestamp_key updates of None \<Rightarrow> timestamp recording | Some v \<Rightarrow> v),
       summary = (case summary_key updates of None \<Rightarrow> summary recording | Some v \<Rightarrow> v),
       title = (case title_key updates of None \<Rightarrow> title recording | Some v \<Rightarrow> v) \<rparr>"

text \<open>The object literal \<^verbatim>\<open>{ title: X }\<close>.\<close>

definition title_only :: "string \<Rightarrow> Partial_Recording" where
  "title_only X =
     \<lparr> id_key = None, uri_key = None, duration_key = None, timestamp_key = None,
       summary_key = None, title_key = Some X \<rparr>"

section \<open>AsyncStorage and JSON\<close>

text \<open>
  AsyncStorage maps keys to texts. A text is represented by what \<^verbatim>\<open>JSON.parse\<close> makes of
  it: \<open>JSON_text xs\<close> is the text \<^verbatim>\<open>JSON.stringify\<close> produces for the array \<open>xs\<close> of
  recordings, and parses back to \<open>xs\<close> (the platform's guarantee for plain objects with
  string fields and finite numbers); \<open>Other_text s\<close> is any text \<open>s\<close> that
  \<^verbatim>\<open>JSON.parse\<close> rejects with a SyntaxError. Only the provider below writes under its
  key, so a text that parses to something else than an array of recordings is not modelled.
\<close>

datatype stored_text = JSON_text "Recording list" | Other_text string

type_synonym AsyncStorage = "string \<Rightarrow> stored_text option"

definition JSON_stringify :: "Recording list \<Rightarrow> stored_text" where
  "JSON_stringify xs = JSON_text xs"

definition JSON_parse :: "stored_text \<Rightarrow> js_error + Recording list" where
  "JSON_parse t =
     (case t of JSON_text xs \<Rightarrow> Inr xs | Other_text s \<Rightarrow> Inl (Rejection ''JSON.parse''))"

text \<open>
  Truthiness of a string: only the empty string is falsy. The JSON text of an array is
  never empty (it is at least \<^verbatim>\<open>[]\<close>).
\<close>

definition truthy_text :: "stored_text \<Rightarrow> bool" where
  "truthy_text t = (case t of JSON_text xs \<Rightarrow> True | Other_text s \<Rightarrow> s \<noteq> [])"

definition getItem :: "io \<Rightarrow> AsyncStorage \<Rightarrow> string \<Rightarrow> js_error + stored_text option" where
  "getItem outcome store key =
     (case outcome of
        Rejects \<Rightarrow> Inl (Rejection ''AsyncStorage.getItem'')
      | Resolves \<Rightarrow> Inr (store key))"

text \<open>A write that rejects leaves the stored item as it was.\<close>

definition setItem :: "io \<Rightarrow> AsyncStorage \<Rightarrow> string \<Rightarrow> stored_text \<Rightarrow> js_error + AsyncStorage" where
  "setItem outcome store key text =
     (case outcome of
        Rejects \<Rightarrow> Inl (Rejection ''AsyncStorage.setItem'')
      | Resolves \<Rightarrow> Inr (store(key \<mapsto> text)))"

section \<open>The registry (context/RecordingContext.tsx)\<close>

text \<open>
  The provider's state is the \<^verbatim>\<open>recordings\<close> array of \<^verbatim>\<open>useState\<close>; the device storage
  and the console are carried along. Each operation below is one call of the function
  the provider hands out at its latest render, so it reads the current \<open>recordings\<close>;
  the body of its \<^verbatim>\<open>try\<close> block is the function with suffix \<open>_try\<close> and returns
  \<open>Inl\<close> where the source throws.
\<close>

record Registry =
  recordings :: "Recording list"
  storage :: AsyncStorage
  console :: "effect list"

definition STORAGE_KEY :: string where
  "STORAGE_KEY = ''@recordings''"

definition loadRecordings_try :: "io \<Rightarrow> Registry \<Rightarrow> js_error + Registry" where
  "loadRecordings_try outcome g =
     (case getItem outcome (storage g) STORAGE_KEY of
        Inl e \<Rightarrow> Inl e
      | Inr None \<Rightarrow> Inr g
      | Inr (Some storedRecordings) \<Rightarrow>
          if truthy_text storedRecordings
          then (case JSON_parse storedRecordings of
                  Inl e \<Rightarrow> Inl e
                | Inr xs \<Rightarrow> Inr (g\<lparr>recordings := xs\<rparr>))
          else Inr g)"

definition loadRecordings :: "io \<Rightarrow> Registry \<Rightarrow> Registry" where
  "loadRecordings outcome g =
     (case loadRecordings_try outcome g of
        Inl e \<Rightarrow> g\<lparr>console := console g @ [ConsoleError ''Error loading recordings:'' e]\<rparr>
      | Inr g' \<Rightarrow> g')"

definition addRecording_try :: "io \<Rightarrow> Recording \<Rightarrow> Registry \<Rightarrow> js_error + Registry" where
  "addRecording_try outcome recording g =
     (let updatedRecordings = recordings g @ [recording] in
      case setItem outcome (storage g) STORAGE_KEY (JSON_stringify updatedRecordings) of
        Inl e \<Rightarrow> Inl e
      | Inr store' \<Rightarrow> Inr (g\<lparr>recordings := updatedRecordings, storage := store'\<rparr>))"

definition addRecording :: "io \<Rightarrow> Recording \<Rightarrow> Registry \<Rightarrow> Registry" where
  "addRecording outcome recording g =
     (case addRecording_try outcome recording g of
        Inl e \<Rightarrow> g\<lparr>console := console g @ [ConsoleError ''Error adding recording:'' e]\<rparr>
      | Inr g' \<Rightarrow> g')"

definition deleteRecording_try :: "io \<Rightarrow> string \<Rightarrow> Registry \<Rightarrow> js_error + Registry" where
  "deleteRecording_try outcome i g =
     (let updatedRecordings = filter (\<lambda>recording. id' recording \<noteq> i) (recordings g) in
      case setItem outcome (storage g) STORAGE_KEY (JSON_stringify updatedRecordings) of
        Inl e \<Rightarrow> Inl e
      | Inr store' \<Rightarrow> Inr (g\<lparr>recordings := updatedRecordings, storage := store'\<rparr>))"

definition deleteRecording :: "io \<Rightarrow> string \<Rightarrow> Registry \<Rightarrow> Registry" where
  "deleteRecording outcome i g =
     (case deleteRecording_try outcome i g of
        Inl e \<Rightarrow> g\<lparr>console := console g @ [ConsoleError ''Error deleting recording:'' e]\<rparr>
      | Inr g' \<Rightarrow> g')"

definition updateRecording_try ::
  "io \<Rightarrow> string \<Rightarrow> Partial_Recording \<Rightarrow> Registry \<Rightarrow> js_error + Registry" where
  "updateRecording_try outcome i updates g =
     (let updatedRecordings =
            map (\<lambda>recording. if id' recording = i then spread recording updates else recording)
              (recordings g) in
      case setItem outcome (storage g) STORAGE_KEY (JSON_stringify updatedRecordings) of
        Inl e \<Rightarrow> Inl e
      | Inr store' \<Rightarrow> Inr (g\<lparr>recordings := updatedRecordings, storage := store'\<rparr>))"

definition updateRecording :: "io \<Rightarrow> string \<Rightarrow> Partial_Recording \<Rightarrow> Registry \<Rightarrow> Registry" where
  "updateRecording outcome i updates g =
     (case updateRecording_try outcome i updates g of
        Inl e \<Rightarrow> g\<lparr>console := console g @ [ConsoleError ''Error updating recording:'' e]\<rparr>
      | Inr g' \<Rightarrow> g')"

text \<open>\<^verbatim>\<open>recordings.find(recording => recording.id === id)\<close>; \<open>None\<close> is \<^verbatim>\<open>undefined\<close>.\<close>

definition getRecording :: "string \<Rightarrow> Registry \<Rightarrow> Recording option" where
  "getRecording i g = find (\<lambda>recording. id' recording = i) (recordings g)"

text \<open>
  Mounting the provider: \<^verbatim>\<open>useState<Recording[]>([])\<close>, then the effect that calls
  \<open>loadRecordings\<close> once.
\<close>

definition initial_Registry :: "AsyncStorage \<Rightarrow> Registry" where
  "initial_Registry store = \<lparr> recordings = [], storage = store, console = [] \<rparr>"

definition RecordingProvider :: "io \<Rightarrow> AsyncStorage \<Rightarrow> Registry" where
  "RecordingProvider outcome store = loadRecordings outcome (initial_Registry store)"

section \<open>Runs of registry operations\<close>

text \<open>
  A caller issues \<^verbatim>\<open>addRecording\<close> and \<^verbatim>\<open>deleteRecording\<close> one after the other,
  awaiting each; the platform decides for each whether its write resolves.
\<close>

datatype registry_op = Add Recording | Delete string

fun apply_op :: "io \<times> registry_op \<Rightarrow> Registry \<Rightarrow> Registry" where
  "apply_op (outcome, Add recording) g = addRecording outcome recording g"
| "apply_op (outcome, Delete i) g = deleteRecording outcome i g"

fun run_ops :: "(io \<times> registry_op) list \<Rightarrow> Registry \<Rightarrow> Registry" where
  "run_ops [] g = g"
| "run_ops (x # xs) g = run_ops xs (apply_op x g)"

text \<open>The recordings passed to \<^verbatim>\<open>addRecording\<close> in a run, in order.\<close>

fun added :: "(io \<times> registry_op) list \<Rightarrow> Recording list" where
  "added [] = []"
| "added ((outcome, Add recording) # xs) = recording # added xs"
| "added ((outcome, Delete i) # xs) = added xs"

section \<open>JavaScript values and control flow\<close>

text \<open>
  The value \<^verbatim>\<open>response.json()\<close> resolves to is any JSON value; reading a property of it
  may give \<^verbatim>\<open>undefined\<close>. An object is its list of keys and values.
\<close>

datatype jsval =
    JUndefined
  | JNull
  | JBool bool
  | JNum real
  | JStr string
  | JArr "jsval list"
  | JObj "(string \<times> jsval) list"

text \<open>Truthiness, as \<^verbatim>\<open>!v\<close> and \<^verbatim>\<open>if (v)\<close> test it.\<close>

fun truthy :: "jsval \<Rightarrow> bool" where
  "truthy JUndefined = False"
| "truthy JNull = False"
| "truthy (JBool b) = b"
| "truthy (JNum x) = (x \<noteq> 0)"
| "truthy (JStr s) = (s \<noteq> [])"
| "truthy (JArr xs) = True"
| "truthy (JObj kvs) = True"

text \<open>
  \<^verbatim>\<open>v.k\<close> for a key \<open>k\<close> that is not a built-in property: a TypeError on \<^verbatim>\<open>null\<close> and
  \<^verbatim>\<open>undefined\<close>, the value under the key in an object, \<^verbatim>\<open>undefined\<close> otherwise.
\<close>

fun get_property :: "jsval \<Rightarrow> string \<Rightarrow> js_error + jsval" where
  "get_property JUndefined k = Inl TypeError"
| "get_property JNull k = Inl TypeError"
| "get_property (JObj kvs) k = Inr (case map_of kvs k of None \<Rightarrow> JUndefined | Some v \<Rightarrow> v)"
| "get_property v k = Inr JUndefined"

text \<open>A non-negative integer in a template literal: its decimal digits.\<close>

definition digit :: "nat \<Rightarrow> char" where
  "digit n = ''0123456789'' ! (n mod 10)"

fun decimal :: "nat \<Rightarrow> string" where
  "decimal n = (if n < 10 then [digit n] else decimal (n div 10) @ [digit n])"

text \<open>
  How a block of statements ends: it runs to its end, it executes \<^verbatim>\<open>return\<close>, or it
  throws. A block is a list of statements run in order on the state; the first one that
  returns or throws ends the block. State setters that ran before a throw keep their
  effect.
\<close>

datatype completion = Normal | Return | Throw js_error

fun run_steps :: "('s \<Rightarrow> 's \<times> completion) list \<Rightarrow> 's \<Rightarrow> 's \<times> completion" where
  "run_steps [] s = (s, Normal)"
| "run_steps (f # fs) s =
     (case f s of (s', Normal) \<Rightarrow> run_steps fs s' | (s', c) \<Rightarrow> (s', c))"

section \<open>The recording screen (the second component of (tabs)/index.tsx)\<close>

text \<open>
  The state of the screen is its \<^verbatim>\<open>useState\<close> cells; \<open>trace\<close> collects the platform
  calls made so far. The function named after a handler is the run of that handler
  without interruption: every call it awaits settles before anything else happens to the
  screen. An async handler is suspended at each \<^verbatim>\<open>await\<close>, and the screen can receive
  another event meanwhile; \<open>startRecording\<close> is therefore also given piece by piece, from
  one \<^verbatim>\<open>await\<close> to the next.
\<close>

record Controller =
  recording :: "capture_handle option"
  recordedURI :: "string option"
  sound :: "sound_handle option"
  isPlaying :: bool
  isSending :: bool
  transcription :: jsval
  analysis :: jsval
  currentRecordingTitle :: "string option"
  isLoading :: bool
  trace :: "effect list"

definition initial_Controller :: Controller where
  "initial_Controller =
     \<lparr> recording = None, recordedURI = None, sound = None, isPlaying = False,
       isSending = False, transcription = JNull, analysis = JNull,
       currentRecordingTitle = None, isLoading = False, trace = [] \<rparr>"

definition emit :: "effect \<Rightarrow> Controller \<Rightarrow> Controller" where
  "emit e s = s\<lparr>trace := trace s @ [e]\<rparr>"

subsection \<open>startRecording\<close>

record start_env =
  requestPermissionsAsync :: "string promise"
  unloadAsync :: io
  setAudioModeAsync :: io
  createAsync :: "capture_handle promise"

definition startRecording_try :: "start_env \<Rightarrow> Controller \<Rightarrow> Controller \<times> completion" where
  "startRecording_try env =
     run_steps
       [\<lambda>s. case requestPermissionsAsync env of
               Rejected \<Rightarrow>
                 (emit RequestPermissions s, Throw (Rejection ''Audio.requestPermissionsAsync''))
             | Resolved status \<Rightarrow>
                 if status \<noteq> ''granted''
                 then (emit (Alert [''Permission to access microphone is required!''])
                         (emit RequestPermissions s), Return)
                 else (emit RequestPermissions s, Normal),
        \<lambda>s. (s\<lparr>currentRecordingTitle := None, transcription := JNull, analysis := JNull,
                 recordedURI := None\<rparr>, Normal),
        \<lambda>s. case sound s of
               None \<Rightarrow> (s, Normal)
             | Some h \<Rightarrow>
                 (case unloadAsync env of
                    Rejects \<Rightarrow> (emit (UnloadSound h) s, Throw (Rejection ''sound.unloadAsync''))
                  | Resolves \<Rightarrow> ((emit (UnloadSound h) s)\<lparr>sound := None\<rparr>, Normal)),
        \<lambda>s. (s\<lparr>isPlaying := False\<rparr>, Normal),
        \<lambda>s. case setAudioModeAsync env of
               Rejects \<Rightarrow> (emit (SetAudioMode True) s, Throw (Rejection ''Audio.setAudioModeAsync''))
             | Resolves \<Rightarrow> (emit (SetAudioMode True) s, Normal),
        \<lambda>s. case createAsync env of
               Rejected \<Rightarrow>
                 (emit (CreateRecording Rejected) s,
                  Throw (Rejection ''Audio.Recording.createAsync''))
             | Resolved h \<Rightarrow>
                 ((emit (CreateRecording (Resolved h)) s)\<lparr>recording := Some h\<rparr>, Normal)]"

definition startRecording :: "start_env \<Rightarrow> Controller \<Rightarrow> Controller" where
  "startRecording env s =
     (case startRecording_try env s of
        (s', Throw e) \<Rightarrow> emit (ConsoleError ''Failed to start recording:'' e) s'
      | (s', c) \<Rightarrow> s')"

subsection \<open>stopRecording\<close>

text \<open>
  \<open>durationMillis\<close> is \<^verbatim>\<open>status.durationMillis\<close> (\<open>None\<close> when undefined);
  \<open>Date_now_id\<close> and \<open>Date_now_timestamp\<close> are the two readings of \<^verbatim>\<open>Date.now()\<close>;
  \<open>toLocaleString\<close> is \<^verbatim>\<open>new Date().toLocaleString()\<close>; \<open>setItem_outcome\<close> is the
  outcome of the write inside \<open>addRecording\<close>.
\<close>

record stop_env =
  stopAndUnloadAsync :: io
  getURI :: "string option"
  durationMillis :: "nat option promise"
  Date_now_id :: nat
  Date_now_timestamp :: nat
  toLocaleString :: string
  setItem_outcome :: io

definition stopRecording_try ::
  "stop_env \<Rightarrow> Controller \<times> Registry \<Rightarrow> (Controller \<times> Registry) \<times> completion" where
  "stopRecording_try env sg =
     (case recording (fst sg) of
        None \<Rightarrow> (sg, Return)
      | Some h \<Rightarrow>
          run_steps
            [\<lambda>(s, g). case stopAndUnloadAsync env of
                      Rejects \<Rightarrow>
                        ((emit (StopAndUnload h Rejects) s, g),
                         Throw (Rejection ''recording.stopAndUnloadAsync''))
                    | Resolves \<Rightarrow> ((emit (StopAndUnload h Resolves) s, g), Normal),
             \<lambda>(s, g). ((s\<lparr>recordedURI := getURI env, recording := None\<rparr>, g), Normal),
             \<lambda>(s, g). case durationMillis env of
                      Rejected \<Rightarrow>
                        ((emit (GetStatus h) s, g), Throw (Rejection ''recording.getStatusAsync''))
                    | Resolved d \<Rightarrow>
                        (case getURI env of
                           None \<Rightarrow> ((emit (GetStatus h) s, g), Normal)
                         | Some u \<Rightarrow>
                             if u = [] then ((emit (GetStatus h) s, g), Normal)
                             else ((emit (GetStatus h) s,
                                    addRecording (setItem_outcome env)
                                      \<lparr> id' = ''rec_'' @ decimal (Date_now_id env),
                                        uri = u,
                                        duration =
                                          (case d of
                                             None \<Rightarrow> 0
                                           | Some ms \<Rightarrow> if ms = 0 then 0 else real ms / 1000),
                                        timestamp = real (Date_now_timestamp env),
                                        summary = None,
                                        title = ''Recording '' @ toLocaleString env \<rparr>
                                      g),
                                   Normal))]
            sg)"

definition stopRecording :: "stop_env \<Rightarrow> Controller \<times> Registry \<Rightarrow> Controller \<times> Registry" where
  "stopRecording env sg =
     (case stopRecording_try env sg of
        ((s', g'), Throw e) \<Rightarrow> (emit (ConsoleError ''Failed to stop recording:'' e) s', g')
      | ((s', g'), c) \<Rightarrow> (s', g'))"

subsection \<open>startRecording between its awaits\<close>

text \<open>
  \<open>startRecording\<close> waits at four places. \<open>startRecording_press\<close> is what runs when the
  function is called: the permission request is made, and the function waits for the
  answer. \<open>startRecording_resume\<close> is what runs when the awaited call settles, on the state
  the screen has at that moment, up to the next \<^verbatim>\<open>await\<close> (\<open>None\<close> when the function has
  ended). The \<^verbatim>\<open>sound\<close> the function tests is a constant of the render that bound the
  function to the button, so the first wait carries it along.
\<close>

datatype start_await =
    Await_requestPermissionsAsync "sound_handle option"
  | Await_unloadAsync sound_handle
  | Await_setAudioModeAsync
  | Await_createAsync

definition startRecording_press :: "Controller \<Rightarrow> Controller \<times> start_await" where
  "startRecording_press s =
     (emit RequestPermissions s, Await_requestPermissionsAsync (sound s))"

definition startRecording_catch :: "js_error \<Rightarrow> Controller \<Rightarrow> Controller \<times> start_await option" where
  "startRecording_catch e s = (emit (ConsoleError ''Failed to start recording:'' e) s, None)"

fun startRecording_resume ::
  "start_env \<Rightarrow> start_await \<Rightarrow> Controller \<Rightarrow> Controller \<times> start_await option" where
  "startRecording_resume env (Await_requestPermissionsAsync closure_sound) s =
     (case requestPermissionsAsync env of
        Rejected \<Rightarrow> startRecording_catch (Rejection ''Audio.requestPermissionsAsync'') s
      | Resolved status \<Rightarrow>
          if status \<noteq> ''granted''
          then (emit (Alert [''Permission to access microphone is required!'']) s, None)
          else (case closure_sound of
                  Some h \<Rightarrow>
                    (emit (UnloadSound h)
                       (s\<lparr>currentRecordingTitle := None, transcription := JNull,
                          analysis := JNull, recordedURI := None\<rparr>),
                     Some (Await_unloadAsync h))
                | None \<Rightarrow>
                    (emit (SetAudioMode True)
                       (s\<lparr>currentRecordingTitle := None, transcription := JNull,
                          analysis := JNull, recordedURI := None, isPlaying := False\<rparr>),
                     Some Await_setAudioModeAsync)))"
| "startRecording_resume env (Await_unloadAsync h) s =
     (case unloadAsync env of
        Rejects \<Rightarrow> startRecording_catch (Rejection ''sound.unloadAsync'') s
      | Resolves \<Rightarrow>
          (emit (SetAudioMode True) (s\<lparr>sound := None, isPlaying := False\<rparr>),
           Some Await_setAudioModeAsync))"
| "startRecording_resume env Await_setAudioModeAsync s =
     (case setAudioModeAsync env of
        Rejects \<Rightarrow> startRecording_catch (Rejection ''Audio.setAudioModeAsync'') s
      | Resolves \<Rightarrow> (s, Some Await_createAsync))"
| "startRecording_resume env Await_createAsync s =
     (case createAsync env of
        Rejected \<Rightarrow>
          startRecording_catch (Rejection ''Audio.Recording.createAsync'')
            (emit (CreateRecording Rejected) s)
      | Resolved h \<Rightarrow> ((emit (CreateRecording (Resolved h)) s)\<lparr>recording := Some h\<rparr>, None))"

text \<open>
  Resuming a call of \<open>startRecording\<close> up to \<open>n\<close> times in a row; four times take it from
  any of its waits to its end.
\<close>

fun startRecording_resumes ::
  "nat \<Rightarrow> start_env \<Rightarrow> Controller \<times> start_await option \<Rightarrow> Controller \<times> start_await option" where
  "startRecording_resumes 0 env sa = sa"
| "startRecording_resumes (Suc n) env (s, None) = (s, None)"
| "startRecording_resumes (Suc n) env (s, Some a) =
     startRecording_resumes n env (startRecording_resume env a s)"

definition startRecording_finish :: "start_env \<Rightarrow> start_await \<Rightarrow> Controller \<Rightarrow> Controller" where
  "startRecording_finish env a s = fst (startRecording_resumes 4 env (s, Some a))"

subsection \<open>The record button\<close>

text \<open>
  \<^verbatim>\<open>onPress={recording ? stopRecording : startRecording}\<close>: the handler a press calls is
  chosen by the \<^verbatim>\<open>recording\<close> cell of the render on the screen.
\<close>

datatype record_handler = Bound_startRecording | Bound_stopRecording

definition recordButton_onPress :: "Controller \<Rightarrow> record_handler" where
  "recordButton_onPress s =
     (case recording s of Some h \<Rightarrow> Bound_stopRecording | None \<Rightarrow> Bound_startRecording)"

subsection \<open>sendAudioForTranscription\<close>

text \<open>
  A response of \<^verbatim>\<open>fetch\<close>: its status, and what \<^verbatim>\<open>response.text()\<close> and
  \<^verbatim>\<open>response.json()\<close> resolve to. \<^verbatim>\<open>response.ok\<close> is true for the statuses 200 to 299.
\<close>

record Response =
  status :: nat
  body_text :: "string promise"
  body_json :: "jsval promise"

definition ok :: "Response \<Rightarrow> bool" where
  "ok response = (200 \<le> status response \<and> status response \<le> 299)"

text \<open>\<open>getInfoAsync\<close> is \<^verbatim>\<open>fileInfo.exists\<close> of \<^verbatim>\<open>FileSystem.getInfoAsync\<close>.\<close>

record upload_env =
  getInfoAsync :: "bool promise"
  fetch :: "Response promise"

definition ANALYZE_URL :: string where
  "ANALYZE_URL = ''http://10.10.117.2:8000/analyze_sales_call''"

definition sendAudioForTranscription_try ::
  "upload_env \<Rightarrow> string \<Rightarrow> Controller \<Rightarrow> Controller \<times> completion" where
  "sendAudioForTranscription_try env u =
     run_steps
       [\<lambda>s. (s\<lparr>isLoading := True, isSending := True, transcription := JNull,
                 analysis := JNull\<rparr>, Normal),
        \<lambda>s. case fetch env of
               Rejected \<Rightarrow> (emit (Fetch ANALYZE_URL u) s, Throw (Rejection ''fetch''))
             | Resolved response \<Rightarrow>
                 run_steps
                   [\<lambda>s. if \<not> ok response
                         then (case body_text response of
                                 Rejected \<Rightarrow> (s, Throw (Rejection ''response.text''))
                               | Resolved errorText \<Rightarrow>
                                   (emit (ConsoleErrorText [''Server error:'', errorText]) s,
                                    Throw (Error (''Server error: '' @ decimal (status response)
                                                    @ '' - '' @ errorText))))
                         else (s, Normal),
                    \<lambda>s. case body_json response of
                           Rejected \<Rightarrow> (s, Throw (Rejection ''response.json''))
                         | Resolved data \<Rightarrow>
                             (case get_property data ''transcription'' of
                                Inl e \<Rightarrow> (s, Throw e)
                              | Inr t \<Rightarrow>
                                  if \<not> truthy t
                                  then (s, Throw (Error ''Invalid response format from server''))
                                  else (case get_property data ''analysis'' of
                                          Inl e \<Rightarrow> (s, Throw e)
                                        | Inr a \<Rightarrow>
                                            if \<not> truthy a
                                            then (s, Throw (Error
                                                    ''Invalid response format from server''))
                                            else (s\<lparr>transcription := t, analysis := a\<rparr>,
                                                  Normal)))]
                   (emit (Fetch ANALYZE_URL u) s)]"

definition sendAudioForTranscription :: "upload_env \<Rightarrow> string \<Rightarrow> Controller \<Rightarrow> Controller" where
  "sendAudioForTranscription env u s =
     (if isLoading s then s
      else (case sendAudioForTranscription_try env u s of
              (s', Throw e) \<Rightarrow>
                (emit (Alert [''Error'', ''Failed to analyze recording. Please try again.''])
                   (emit (ConsoleError ''Error sending audio:'' e) s'))
                  \<lparr>isLoading := False, isSending := False\<rparr>
            | (s', c) \<Rightarrow> s'\<lparr>isLoading := False, isSending := False\<rparr>))"

subsection \<open>Open captures\<close>

text \<open>
  The captures open on the platform according to a trace: those whose creation resolved,
  less those whose stop resolved.
\<close>

fun created :: "effect \<Rightarrow> bool" where
  "created (CreateRecording (Resolved h)) = True"
| "created e = False"

fun stopped :: "effect \<Rightarrow> bool" where
  "stopped (StopAndUnload h Resolves) = True"
| "stopped e = False"

definition open_captures :: "effect list \<Rightarrow> int" where
  "open_captures es = int (length (filter created es)) - int (length (filter stopped es))"

section \<open>Earlier upload functions (unnamed/part 001 and the first component of (tabs)/index.tsx)\<close>

text \<open>
  Two earlier screens of the repository define \<^verbatim>\<open>sendAudioForTranscription\<close> without an
  argument: it sends \<^verbatim>\<open>recordedURI\<close>, after asking the file system whether the file
  exists. Their state is a part of the state above; the cells they do not have are left
  alone.
\<close>

definition TRANSCRIBE_URL :: string where
  "TRANSCRIBE_URL = ''http://192.168.1.176:8000/transcribe''"

definition sendAudioForTranscription_part_001_try ::
  "upload_env \<Rightarrow> string \<Rightarrow> Controller \<Rightarrow> Controller \<times> completion" where
  "sendAudioForTranscription_part_001_try env u =
     run_steps
       [\<lambda>s. (s\<lparr>isSending := True, transcription := JNull\<rparr>, Normal),
        \<lambda>s. case getInfoAsync env of
               Rejected \<Rightarrow> (emit (GetInfo u) s, Throw (Rejection ''FileSystem.getInfoAsync''))
             | Resolved exists \<Rightarrow>
                 if \<not> exists then (emit (GetInfo u) s, Throw (Error ''File does not exist''))
                 else (emit (GetInfo u) s, Normal),
        \<lambda>s. case fetch env of
               Rejected \<Rightarrow> (emit (Fetch TRANSCRIBE_URL u) s, Throw (Rejection ''fetch''))
             | Resolved res \<Rightarrow>
                 run_steps
                   [\<lambda>s. if \<not> ok res
                         then (case body_text res of
                                 Rejected \<Rightarrow> (s, Throw (Rejection ''response.text''))
                               | Resolved errText \<Rightarrow>
                                   (emit (ConsoleErrorText
                                            [''HTTP error response:'', decimal (status res), errText])
                                      s,
                                    Throw (Error (''Server error: '' @ decimal (status res)
                                                    @ '' - '' @ errText))))
                         else (s, Normal),
                    \<lambda>s. case body_json res of
                           Rejected \<Rightarrow> (s, Throw (Rejection ''response.json''))
                         | Resolved data \<Rightarrow>
                             (case get_property data ''transcription'' of
                                Inl e \<Rightarrow> (s, Throw e)
                              | Inr t \<Rightarrow> (s\<lparr>transcription := t\<rparr>, Normal))]
                   (emit (Fetch TRANSCRIBE_URL u) s)]"

definition sendAudioForTranscription_part_001 :: "upload_env \<Rightarrow> Controller \<Rightarrow> Controller" where
  "sendAudioForTranscription_part_001 env s =
     (case recordedURI s of
        None \<Rightarrow> s
      | Some u \<Rightarrow>
          if u = [] then s
          else (case sendAudioForTranscription_part_001_try env u s of
                  (s', Throw e) \<Rightarrow>
                    (emit (AlertErrorMessage ''Error Sending Audio'' e
                             ''Unknown error occurred. See logs for more info.'') s')
                      \<lparr>isSending := False\<rparr>
                | (s', c) \<Rightarrow> s'\<lparr>isSending := False\<rparr>))"

definition EARLIER_ANALYZE_URL :: string where
  "EARLIER_ANALYZE_URL = ''http://192.168.1.159:8000/analyze_sales_call''"

definition sendAudioForTranscription_earlier_try ::
  "upload_env \<Rightarrow> string \<Rightarrow> Controller \<Rightarrow> Controller \<times> completion" where
  "sendAudioForTranscription_earlier_try env u =
     run_steps
       [\<lambda>s. (s\<lparr>isSending := True, transcription := JNull, analysis := JNull\<rparr>, Normal),
        \<lambda>s. case getInfoAsync env of
               Rejected \<Rightarrow> (emit (GetInfo u) s, Throw (Rejection ''FileSystem.getInfoAsync''))
             | Resolved exists \<Rightarrow>
                 if \<not> exists then (emit (GetInfo u) s, Throw (Error ''File does not exist''))
                 else (emit (GetInfo u) s, Normal),
        \<lambda>s. case fetch env of
               Rejected \<Rightarrow> (emit (Fetch EARLIER_ANALYZE_URL u) s, Throw (Rejection ''fetch''))
             | Resolved res \<Rightarrow>
                 run_steps
                   [\<lambda>s. if \<not> ok res
                         then (case body_text res of
                                 Rejected \<Rightarrow> (s, Throw (Rejection ''response.text''))
                               | Resolved errText \<Rightarrow>
                                   (s, Throw (Error (''Server error: '' @ decimal (status res)
                                                       @ '' - '' @ errText))))
                         else (s, Normal),
                    \<lambda>s. case body_json res of
                           Rejected \<Rightarrow> (s, Throw (Rejection ''response.json''))
                         | Resolved data \<Rightarrow>
                             (case get_property data ''transcription'' of
                                Inl e \<Rightarrow> (s, Throw e)
                              | Inr t \<Rightarrow>
                                  (case get_property data ''analysis'' of
                                     Inl e \<Rightarrow> (s\<lparr>transcription := t\<rparr>, Throw e)
                                   | Inr a \<Rightarrow> (s\<lparr>transcription := t, analysis := a\<rparr>, Normal)))]
                   (emit (Fetch EARLIER_ANALYZE_URL u) s)]"

definition sendAudioForTranscription_earlier :: "upload_env \<Rightarrow> Controller \<Rightarrow> Controller" where
  "sendAudioForTranscription_earlier env s =
     (case recordedURI s of
        None \<Rightarrow> s
      | Some u \<Rightarrow>
          if u = [] then s
          else (case sendAudioForTranscription_earlier_try env u s of
                  (s', Throw e) \<Rightarrow>
                    (emit (AlertErrorMessage ''Error Sending Audio'' e
                             ''Unknown error occurred. See logs for more info.'') s')
                      \<lparr>isSending := False\<rparr>
                | (s', c) \<Rightarrow> s'\<lparr>isSending := False\<rparr>))"

section \<open>Example values\<close>

definition example_recording :: "string \<Rightarrow> Recording" where
  "example_recording i =
     \<lparr> id' = i, uri = ''file:///rec/'' @ i @ ''.m4a'', duration = 2.5,
       timestamp = 1700000000000, summary = None, title = ''Recording '' @ i \<rparr>"

text \<open>
  Platform outcomes for the examples: the microphone permission is granted and every call
  resolves; the server answers 200 with a transcription and an analysis.
\<close>

definition example_start_env :: "capture_handle promise \<Rightarrow> start_env" where
  "example_start_env c =
     \<lparr> requestPermissionsAsync = Resolved ''granted'', unloadAsync = Resolves,
       setAudioModeAsync = Resolves, createAsync = c \<rparr>"

definition example_upload_env :: "bool \<Rightarrow> upload_env" where
  "example_upload_env file_exists =
     \<lparr> getInfoAsync = Resolved file_exists,
       fetch = Resolved
         \<lparr> status = 200, body_text = Resolved ''{}'',
           body_json =
             Resolved (JObj [(''transcription'', JStr ''T''), (''analysis'', JStr ''A'')]) \<rparr> \<rparr>"

section \<open>Properties of the registry\<close>

subsection \<open>What each operation does to the in-memory sequence\<close>

lemma recordings_addRecording:
  "recordings (addRecording outcome r g) =
     (case outcome of Resolves \<Rightarrow> recordings g @ [r] | Rejects \<Rightarrow> recordings g)"
  by (cases outcome) (simp_all add: addRecording_def addRecording_try_def setItem_def Let_def)

lemma recordings_deleteRecording:
  "recordings (deleteRecording outcome i g) =
     (case outcome of
        Resolves \<Rightarrow> filter (\<lambda>recording. id' recording \<noteq> i) (recordings g)
      | Rejects \<Rightarrow> recordings g)"
  by (cases outcome)
     (simp_all add: deleteRecording_def deleteRecording_try_def setItem_def Let_def)

lemma recordings_updateRecording:
  "recordings (updateRecording outcome i u g) =
     (case outcome of
        Resolves \<Rightarrow>
          map (\<lambda>recording. if id' recording = i then spread recording u else recording)
            (recordings g)
      | Rejects \<Rightarrow> recordings g)"
  by (cases outcome)
     (simp_all add: updateRecording_def updateRecording_try_def setItem_def Let_def)

lemma stored_after_write:
  "storage (addRecording Resolves r g) STORAGE_KEY =
     Some (JSON_text (recordings (addRecording Resolves r g)))"
  "storage (deleteRecording Resolves i g) STORAGE_KEY =
     Some (JSON_text (recordings (deleteRecording Resolves i g)))"
  "storage (updateRecording Resolves i u g) STORAGE_KEY =
     Some (JSON_text (recordings (updateRecording Resolves i u g)))"
  by (simp_all add: addRecording_def addRecording_try_def deleteRecording_def
        deleteRecording_try_def updateRecording_def updateRecording_try_def setItem_def Let_def
        JSON_stringify_def)

lemma filter_absent_id:
  "i \<notin> id' ` set xs \<Longrightarrow> filter (\<lambda>recording. id' recording \<noteq> i) xs = xs"
  by (induction xs) auto

lemma map_absent_id:
  "i \<notin> id' ` set xs \<Longrightarrow>
     map (\<lambda>recording. if id' recording = i then f recording else recording) xs = xs"
  by (induction xs) auto

subsection \<open>Deleting an id that is not there\<close>

text \<open>
  Claim C4. For every collection and every id not present in it, \<open>deleteRecording\<close>
  leaves the sequence unchanged (same length, same contents, same order), whether or not
  the write resolves. Nothing is thrown: when the write resolves the \<^verbatim>\<open>try\<close> block
  completes, having persisted the unchanged sequence, and when it rejects the
  \<^verbatim>\<open>catch\<close> swallows the rejection (\<open>deleteRecording\<close> returns a registry in every case).
\<close>

theorem deleteRecording_absent_id:
  "i \<notin> id' ` set (recordings g) \<Longrightarrow>
     recordings (deleteRecording outcome i g) = recordings g
     \<and> length (recordings (deleteRecording outcome i g)) = length (recordings g)
     \<and> deleteRecording_try Resolves i g =
         Inr (g\<lparr>storage := (storage g)(STORAGE_KEY \<mapsto> JSON_text (recordings g))\<rparr>)"
  by (cases outcome)
     (simp_all add: recordings_deleteRecording filter_absent_id deleteRecording_try_def
        setItem_def JSON_stringify_def Let_def)

theorem deleteRecording_absent_id_witness:
  "''r9'' \<notin> id' ` set (recordings
       (addRecording Resolves (example_recording ''r1'') (initial_Registry Map.empty)))
   \<and> recordings (deleteRecording Resolves ''r9''
        (addRecording Resolves (example_recording ''r1'') (initial_Registry Map.empty)))
      = [example_recording ''r1'']"
  using deleteRecording_absent_id
    [of "''r9''"
        "addRecording Resolves (example_recording ''r1'') (initial_Registry Map.empty)"
        Resolves]
  by (simp add: recordings_addRecording initial_Registry_def example_recording_def)

subsection \<open>Uniqueness of ids\<close>

text \<open>
  The invariant of a run: the ids in the store together with the ids still to be added
  are pairwise distinct. An add that resolves moves one id from the second group to the
  first, a delete removes ids, and an operation whose write rejects changes nothing.
\<close>

lemma distinct_run_ops:
  "distinct (map id' (recordings g @ added ops)) \<Longrightarrow>
     distinct (map id' (recordings (run_ops ops g)))"
proof (induction ops arbitrary: g)
  case Nil
  then show ?case by simp
next
  case (Cons x ops)
  obtain outcome op where x: "x = (outcome, op)" by (cases x)
  show ?case
  proof (cases op)
    case (Add r)
    have "distinct (map id' (recordings (addRecording outcome r g) @ added ops))"
      using Cons.prems x Add by (cases outcome) (auto simp: recordings_addRecording)
    then show ?thesis using Cons.IH x Add by simp
  next
    case (Delete i)
    have "distinct (map id' (recordings (deleteRecording outcome i g) @ added ops))"
      using Cons.prems x Delete
      by (cases outcome) (auto simp: recordings_deleteRecording distinct_map_filter)
    then show ?thesis using Cons.IH x Delete by simp
  qed
qed

text \<open>
  Claim C5. After any finite sequence of \<open>addRecording\<close> and \<open>deleteRecording\<close> calls
  starting from the empty store, if the recordings passed to \<open>addRecording\<close> have pairwise
  distinct ids, then the ids of the entries in the store are pairwise distinct.
\<close>

theorem ids_pairwise_distinct:
  "distinct (map id' (added ops)) \<Longrightarrow>
     distinct (map id' (recordings (run_ops ops (initial_Registry store))))"
  using distinct_run_ops [of "initial_Registry store" ops]
  by (simp add: initial_Registry_def)

theorem ids_pairwise_distinct_witness:
  "distinct (map id' (added
      [(Resolves, Add (example_recording ''r1'')), (Rejects, Add (example_recording ''r2'')),
       (Resolves, Delete ''r1''), (Resolves, Add (example_recording ''r3''))]))
   \<and> map id' (recordings (run_ops
      [(Resolves, Add (example_recording ''r1'')), (Rejects, Add (example_recording ''r2'')),
       (Resolves, Delete ''r1''), (Resolves, Add (example_recording ''r3''))]
      (initial_Registry Map.empty))) = [''r3'']
   \<and> distinct (map id' (recordings (run_ops
      [(Resolves, Add (example_recording ''r1'')), (Rejects, Add (example_recording ''r2'')),
       (Resolves, Delete ''r1''), (Resolves, Add (example_recording ''r3''))]
      (initial_Registry Map.empty))))"
  using ids_pairwise_distinct
    [of "[(Resolves, Add (example_recording ''r1'')), (Rejects, Add (example_recording ''r2'')),
       (Resolves, Delete ''r1''), (Resolves, Add (example_recording ''r3''))]" Map.empty]
  by (simp add: recordings_addRecording recordings_deleteRecording initial_Registry_def
        example_recording_def)

subsection \<open>The example scenario\<close>

text \<open>
  Claim C1. Starting from an empty registry, after \<open>addRecording\<close> of three recordings
  with ids r1, r2, r3 in that order (each write resolving), \<open>getRecording\<close> of r2 returns
  the r2 entity; after \<open>deleteRecording\<close> of r2 the sequence is the r1 entity followed by
  the r3 entity, in memory and in the persisted text, and \<open>getRecording\<close> of r2 returns
  \<^verbatim>\<open>undefined\<close> (\<open>None\<close>) rather than throwing.
\<close>

theorem registry_scenario:
  "id' a = ''r1'' \<Longrightarrow> id' b = ''r2'' \<Longrightarrow> id' c = ''r3'' \<Longrightarrow>
     (let g3 = addRecording Resolves c (addRecording Resolves b
                 (addRecording Resolves a (initial_Registry store)));
          g4 = deleteRecording Resolves ''r2'' g3
      in recordings g3 = [a, b, c]
         \<and> getRecording ''r2'' g3 = Some b
         \<and> recordings g4 = [a, c]
         \<and> storage g4 STORAGE_KEY = Some (JSON_text [a, c])
         \<and> getRecording ''r2'' g4 = None)"
  by (simp add: Let_def getRecording_def recordings_addRecording recordings_deleteRecording
        stored_after_write initial_Registry_def)

theorem registry_scenario_witness:
  "id' (example_recording ''r1'') = ''r1'' \<and> id' (example_recording ''r2'') = ''r2''
   \<and> id' (example_recording ''r3'') = ''r3''
   \<and> getRecording ''r2''
        (addRecording Resolves (example_recording ''r3'')
          (addRecording Resolves (example_recording ''r2'')
            (addRecording Resolves (example_recording ''r1'') (initial_Registry Map.empty))))
      = Some (example_recording ''r2'')
   \<and> recordings (deleteRecording Resolves ''r2''
        (addRecording Resolves (example_recording ''r3'')
          (addRecording Resolves (example_recording ''r2'')
            (addRecording Resolves (example_recording ''r1'') (initial_Registry Map.empty)))))
      = [example_recording ''r1'', example_recording ''r3'']
   \<and> getRecording ''r2'' (deleteRecording Resolves ''r2''
        (addRecording Resolves (example_recording ''r3'')
          (addRecording Resolves (example_recording ''r2'')
            (addRecording Resolves (example_recording ''r1'') (initial_Registry Map.empty)))))
      = None"
  using registry_scenario
    [of "example_recording ''r1''" "example_recording ''r2''" "example_recording ''r3''"
        Map.empty]
  by (simp add: Let_def example_recording_def)

subsection \<open>A write that rejects\<close>

lemma storage_rejected:
  "storage (addRecording Rejects r g) = storage g"
  "storage (deleteRecording Rejects i g) = storage g"
  "storage (updateRecording Rejects i u g) = storage g"
  by (simp_all add: addRecording_def addRecording_try_def deleteRecording_def
        deleteRecording_try_def updateRecording_def updateRecording_try_def setItem_def Let_def)

lemma console_rejected:
  "console (addRecording Rejects r g) =
     console g @ [ConsoleError ''Error adding recording:'' (Rejection ''AsyncStorage.setItem'')]"
  "console (deleteRecording Rejects i g) =
     console g @ [ConsoleError ''Error deleting recording:'' (Rejection ''AsyncStorage.setItem'')]"
  "console (updateRecording Rejects i u g) =
     console g @ [ConsoleError ''Error updating recording:'' (Rejection ''AsyncStorage.setItem'')]"
  by (simp_all add: addRecording_def addRecording_try_def deleteRecording_def
        deleteRecording_try_def updateRecording_def updateRecording_try_def setItem_def Let_def)

text \<open>
  Claim C2, as stated: when persisting the updated sequence fails, the in-memory
  collection has nevertheless advanced to the new sequence. The code awaits
  \<^verbatim>\<open>AsyncStorage.setItem\<close> before it calls \<^verbatim>\<open>setRecordings\<close>, inside one
  \<^verbatim>\<open>try\<close> block, so a rejected write skips the in-memory update: adding a recording
  to the empty registry with a failing write leaves the registry empty.
\<close>

theorem save_failure_counterexample:
  "addRecording_try Rejects (example_recording ''r1'') (initial_Registry Map.empty)
     = Inl (Rejection ''AsyncStorage.setItem'')
   \<and> recordings (addRecording Rejects (example_recording ''r1'') (initial_Registry Map.empty))
       = []
   \<and> recordings (addRecording Rejects (example_recording ''r1'') (initial_Registry Map.empty))
       \<noteq> recordings (initial_Registry Map.empty) @ [example_recording ''r1'']"
  by (simp add: addRecording_def addRecording_try_def setItem_def Let_def initial_Registry_def)

text \<open>
  Claim C2, amended. For each of \<open>addRecording\<close>, \<open>deleteRecording\<close> and
  \<open>updateRecording\<close>, if persisting the updated sequence fails, the in-memory collection
  keeps its previous sequence (the new sequence is set in memory only after the write has
  resolved); the stored item is untouched and the rejection is logged to the console, not
  rethrown.
\<close>

theorem save_failure_keeps_memory:
  "recordings (addRecording Rejects r g) = recordings g
   \<and> recordings (deleteRecording Rejects i g) = recordings g
   \<and> recordings (updateRecording Rejects i u g) = recordings g
   \<and> storage (addRecording Rejects r g) = storage g
   \<and> storage (deleteRecording Rejects i g) = storage g
   \<and> storage (updateRecording Rejects i u g) = storage g
   \<and> console (addRecording Rejects r g) =
       console g @ [ConsoleError ''Error adding recording:'' (Rejection ''AsyncStorage.setItem'')]
   \<and> console (deleteRecording Rejects i g) =
       console g @ [ConsoleError ''Error deleting recording:'' (Rejection ''AsyncStorage.setItem'')]
   \<and> console (updateRecording Rejects i u g) =
       console g @ [ConsoleError ''Error updating recording:'' (Rejection ''AsyncStorage.setItem'')]"
  by (simp add: recordings_addRecording recordings_deleteRecording recordings_updateRecording
        storage_rejected console_rejected)

subsection \<open>Renaming\<close>

lemma spread_title_only: "spread r (title_only X) = r\<lparr>title := X\<rparr>"
  by (simp add: spread_def title_only_def)

text \<open>
  Claim C3. When exactly one entry of the collection has the id \<open>i\<close>, \<open>updateRecording\<close>
  with \<^verbatim>\<open>{title: X}\<close> changes only the title of that entry: every other field of it and
  every other entry keep their content and position (and nothing at all changes when the
  write rejects). For an id \<open>j\<close> that no entry has, \<open>updateRecording\<close> with any fields
  leaves the sequence as it was, and persists that same sequence.
\<close>

theorem updateRecording_title_only:
  "(recordings g = xs @ r # ys \<and> id' r = i \<and> i \<notin> id' ` set xs \<and> i \<notin> id' ` set ys \<longrightarrow>
      recordings (updateRecording Resolves i (title_only X) g) = xs @ r\<lparr>title := X\<rparr> # ys
      \<and> recordings (updateRecording Rejects i (title_only X) g) = xs @ r # ys)
   \<and> (j \<notin> id' ` set (recordings g) \<longrightarrow>
        recordings (updateRecording outcome j updates g) = recordings g
        \<and> storage (updateRecording Resolves j updates g) STORAGE_KEY
            = Some (JSON_text (recordings g)))"
proof (intro conjI impI)
  assume a: "recordings g = xs @ r # ys \<and> id' r = i \<and> i \<notin> id' ` set xs \<and> i \<notin> id' ` set ys"
  then show "recordings (updateRecording Resolves i (title_only X) g) = xs @ r\<lparr>title := X\<rparr> # ys"
    by (simp add: recordings_updateRecording map_absent_id spread_title_only)
  from a show "recordings (updateRecording Rejects i (title_only X) g) = xs @ r # ys"
    by (simp add: recordings_updateRecording)
next
  assume j: "j \<notin> id' ` set (recordings g)"
  then show "recordings (updateRecording outcome j updates g) = recordings g"
    by (cases outcome) (simp_all add: recordings_updateRecording map_absent_id)
  from j show "storage (updateRecording Resolves j updates g) STORAGE_KEY
            = Some (JSON_text (recordings g))"
    by (simp add: stored_after_write recordings_updateRecording map_absent_id)
qed

theorem updateRecording_title_only_witness:
  "recordings (addRecording Resolves (example_recording ''r3'')
          (addRecording Resolves (example_recording ''r2'')
            (addRecording Resolves (example_recording ''r1'') (initial_Registry Map.empty))))
     = [example_recording ''r1''] @ example_recording ''r2'' # [example_recording ''r3'']
   \<and> id' (example_recording ''r2'') = ''r2''
   \<and> ''r2'' \<notin> id' ` set [example_recording ''r1'']
   \<and> ''r2'' \<notin> id' ` set [example_recording ''r3'']
   \<and> ''r9'' \<notin> id' ` set (recordings (addRecording Resolves (example_recording ''r3'')
          (addRecording Resolves (example_recording ''r2'')
            (addRecording Resolves (example_recording ''r1'') (initial_Registry Map.empty)))))
   \<and> recordings (updateRecording Resolves ''r2'' (title_only ''X'')
        (addRecording Resolves (example_recording ''r3'')
          (addRecording Resolves (example_recording ''r2'')
            (addRecording Resolves (example_recording ''r1'') (initial_Registry Map.empty)))))
     = [example_recording ''r1'', (example_recording ''r2'')\<lparr>title := ''X''\<rparr>,
        example_recording ''r3'']
   \<and> recordings (updateRecording Resolves ''r9'' (title_only ''X'')
        (addRecording Resolves (example_recording ''r3'')
          (addRecording Resolves (example_recording ''r2'')
            (addRecording Resolves (example_recording ''r1'') (initial_Registry Map.empty)))))
     = [example_recording ''r1'', example_recording ''r2'', example_recording ''r3'']"
  using updateRecording_title_only
    [of "addRecording Resolves (example_recording ''r3'')
          (addRecording Resolves (example_recording ''r2'')
            (addRecording Resolves (example_recording ''r1'') (initial_Registry Map.empty)))"
        "[example_recording ''r1'']" "example_recording ''r2''" "[example_recording ''r3'']"
        "''r2''" "''X''" "''r9''" Resolves "title_only ''X''"]
  by (simp add: recordings_addRecording initial_Registry_def example_recording_def)

subsection \<open>Saving and loading\<close>

lemma RecordingProvider_JSON_text:
  "store STORAGE_KEY = Some (JSON_text xs) \<Longrightarrow>
     recordings (RecordingProvider Resolves store) = xs"
  by (simp add: RecordingProvider_def loadRecordings_def loadRecordings_try_def getItem_def
        initial_Registry_def truthy_text_def JSON_parse_def)

text \<open>
  Claim C6. Saving the collection and then loading it yields the same sequence, field for
  field. The collection is saved by each mutating operation whose write resolves, and
  loaded when the provider is mounted again on the resulting storage: the mounted
  provider then holds the sequence the operation left in memory. This includes the empty
  sequence, saved by a delete on the empty registry.
\<close>

theorem save_then_load:
  "recordings (addRecording Resolves r g) = recordings g @ [r]
   \<and> recordings (RecordingProvider Resolves (storage (addRecording Resolves r g)))
       = recordings (addRecording Resolves r g)
   \<and> recordings (RecordingProvider Resolves (storage (deleteRecording Resolves i g)))
       = recordings (deleteRecording Resolves i g)
   \<and> recordings (RecordingProvider Resolves (storage (updateRecording Resolves i u g)))
       = recordings (updateRecording Resolves i u g)
   \<and> recordings (deleteRecording Resolves i (initial_Registry store)) = []
   \<and> recordings (RecordingProvider Resolves
        (storage (deleteRecording Resolves i (initial_Registry store)))) = []"
  by (simp add: RecordingProvider_JSON_text stored_after_write recordings_addRecording
        recordings_deleteRecording initial_Registry_def)

text \<open>
  Claim C10. Loading when nothing is stored under the key, and loading when the stored
  text does not parse, both leave the caller with the empty sequence instead of failing;
  so does a read that rejects. The parse error and the rejected read are logged to the
  console, never rethrown.
\<close>

theorem load_fail_soft:
  "recordings (RecordingProvider outcome (store(STORAGE_KEY := None))) = []
   \<and> recordings (RecordingProvider outcome (store(STORAGE_KEY \<mapsto> Other_text s))) = []
   \<and> recordings (RecordingProvider Rejects store) = []
   \<and> console (RecordingProvider Resolves (store(STORAGE_KEY := None))) = []
   \<and> console (RecordingProvider Resolves (store(STORAGE_KEY \<mapsto> Other_text s))) =
       (if s = [] then []
        else [ConsoleError ''Error loading recordings:'' (Rejection ''JSON.parse'')])
   \<and> console (RecordingProvider Rejects store) =
       [ConsoleError ''Error loading recordings:'' (Rejection ''AsyncStorage.getItem'')]"
  by (cases outcome)
     (simp_all add: RecordingProvider_def loadRecordings_def loadRecordings_try_def getItem_def
        initial_Registry_def truthy_text_def JSON_parse_def)

section \<open>Properties of the upload\<close>

text \<open>
  Claim C8. The upload on a screen that is not already loading: a 200 response whose body
  is an object with a transcription \<open>T\<close> and an analysis \<open>A\<close> (both non-empty) puts \<open>T\<close>
  and \<open>A\<close> on the screen; a 500 response with the text boom makes the \<^verbatim>\<open>try\<close> block
  throw an error carrying 500 and boom, which is logged; a 200 response whose body is the
  empty object makes it throw the invalid-format error although the status is a success.
  In both failures the screen shows no transcription and the user gets the alert.
\<close>

theorem upload_contract:
  "\<not> isLoading s \<Longrightarrow> T \<noteq> [] \<Longrightarrow> A \<noteq> [] \<Longrightarrow>
     sendAudioForTranscription
       \<lparr> getInfoAsync = info,
         fetch = Resolved \<lparr> status = 200, body_text = txt,
           body_json = Resolved (JObj [(''transcription'', JStr T), (''analysis'', JStr A)]) \<rparr> \<rparr>
       u s
       = s\<lparr> isSending := False, transcription := JStr T, analysis := JStr A,
            isLoading := False, trace := trace s @ [Fetch ANALYZE_URL u] \<rparr>
   \<and> snd (sendAudioForTranscription_try
         \<lparr> getInfoAsync = info,
           fetch = Resolved \<lparr> status = 500, body_text = Resolved ''boom'', body_json = js \<rparr> \<rparr>
         u s)
       = Throw (Error ''Server error: 500 - boom'')
   \<and> sendAudioForTranscription
       \<lparr> getInfoAsync = info,
         fetch = Resolved \<lparr> status = 500, body_text = Resolved ''boom'', body_json = js \<rparr> \<rparr>
       u s
       = s\<lparr> isSending := False, transcription := JNull, analysis := JNull, isLoading := False,
            trace := trace s @
              [Fetch ANALYZE_URL u,
               ConsoleErrorText [''Server error:'', ''boom''],
               ConsoleError ''Error sending audio:'' (Error ''Server error: 500 - boom''),
               Alert [''Error'', ''Failed to analyze recording. Please try again.'']] \<rparr>
   \<and> snd (sendAudioForTranscription_try
         \<lparr> getInfoAsync = info,
           fetch = Resolved \<lparr> status = 200, body_text = txt, body_json = Resolved (JObj []) \<rparr> \<rparr>
         u s)
       = Throw (Error ''Invalid response format from server'')
   \<and> sendAudioForTranscription
       \<lparr> getInfoAsync = info,
         fetch = Resolved \<lparr> status = 200, body_text = txt, body_json = Resolved (JObj []) \<rparr> \<rparr>
       u s
       = s\<lparr> isSending := False, transcription := JNull, analysis := JNull, isLoading := False,
            trace := trace s @
              [Fetch ANALYZE_URL u,
               ConsoleError ''Error sending audio:''
                 (Error ''Invalid response format from server''),
               Alert [''Error'', ''Failed to analyze recording. Please try again.'']] \<rparr>"
  by (simp add: sendAudioForTranscription_def sendAudioForTranscription_try_def ok_def emit_def
        digit_def)

theorem upload_contract_witness:
  "\<not> isLoading initial_Controller \<and> ''T'' \<noteq> [] \<and> ''A'' \<noteq> []
   \<and> sendAudioForTranscription
       \<lparr> getInfoAsync = Resolved True,
         fetch = Resolved \<lparr> status = 200, body_text = Resolved ''{}'',
           body_json =
             Resolved (JObj [(''transcription'', JStr ''T''), (''analysis'', JStr ''A'')]) \<rparr> \<rparr>
       ''file:///rec/r1.m4a'' initial_Controller
       = initial_Controller\<lparr> transcription := JStr ''T'', analysis := JStr ''A'',
            trace := [Fetch ANALYZE_URL ''file:///rec/r1.m4a''] \<rparr>
   \<and> snd (sendAudioForTranscription_try
         \<lparr> getInfoAsync = Resolved True,
           fetch = Resolved \<lparr> status = 500, body_text = Resolved ''boom'',
                     body_json = Rejected \<rparr> \<rparr>
         ''file:///rec/r1.m4a'' initial_Controller)
       = Throw (Error ''Server error: 500 - boom'')
   \<and> snd (sendAudioForTranscription_try
         \<lparr> getInfoAsync = Resolved True,
           fetch = Resolved \<lparr> status = 200, body_text = Resolved ''{}'',
                     body_json = Resolved (JObj []) \<rparr> \<rparr>
         ''file:///rec/r1.m4a'' initial_Controller)
       = Throw (Error ''Invalid response format from server'')"
  using upload_contract
    [of initial_Controller "''T''" "''A''" "Resolved True" "Resolved ''{}''"
        "''file:///rec/r1.m4a''" Rejected]
  by (simp add: initial_Controller_def)

subsection \<open>The file existence check\<close>

text \<open>
  The two earlier upload functions ask the file system first: for a file that does not
  exist they throw before any request is made, and the alert shows the message.
\<close>

lemma part_001_checks_file:
  "recordedURI s = Some u \<Longrightarrow> u \<noteq> [] \<Longrightarrow> getInfoAsync env = Resolved False \<Longrightarrow>
     sendAudioForTranscription_part_001 env s =
       s\<lparr> isSending := False, transcription := JNull,
           trace := trace s @
             [GetInfo u,
              AlertErrorMessage ''Error Sending Audio'' (Error ''File does not exist'')
                ''Unknown error occurred. See logs for more info.''] \<rparr>"
  by (simp add: sendAudioForTranscription_part_001_def
        sendAudioForTranscription_part_001_try_def emit_def)

lemma earlier_checks_file:
  "recordedURI s = Some u \<Longrightarrow> u \<noteq> [] \<Longrightarrow> getInfoAsync env = Resolved False \<Longrightarrow>
     sendAudioForTranscription_earlier env s =
       s\<lparr> isSending := False, transcription := JNull, analysis := JNull,
           trace := trace s @
             [GetInfo u,
              AlertErrorMessage ''Error Sending Audio'' (Error ''File does not exist'')
                ''Unknown error occurred. See logs for more info.''] \<rparr>"
  by (simp add: sendAudioForTranscription_earlier_def
        sendAudioForTranscription_earlier_try_def emit_def)

text \<open>
  The upload of the recording screen does not: what the file system would answer has no
  influence on it, and its first call is the request.
\<close>

lemma upload_ignores_file_info:
  "sendAudioForTranscription (env\<lparr>getInfoAsync := info\<rparr>) u s
     = sendAudioForTranscription env u s"
  by (simp add: sendAudioForTranscription_def sendAudioForTranscription_try_def)

lemma upload_always_fetches:
  "\<not> isLoading s \<Longrightarrow>
     take (Suc (length (trace s))) (trace (sendAudioForTranscription env u s))
       = trace s @ [Fetch ANALYZE_URL u]"
  by (auto simp: sendAudioForTranscription_def sendAudioForTranscription_try_def emit_def
        split: promise.splits sum.splits)

text \<open>
  Claim C9. Before attempting the upload, the upload operation verifies that the audio
  file exists, and fails without a network request when it does not. On the recording
  screen it does not hold: on the fresh screen, for a file that does not exist and a
  server that answers, the only platform call is the request, and the answer is shown.
\<close>

theorem upload_of_missing_file:
  "sendAudioForTranscription (example_upload_env False) ''file:///rec/missing.m4a''
     initial_Controller
     = initial_Controller\<lparr> transcription := JStr ''T'', analysis := JStr ''A'',
          trace := [Fetch ANALYZE_URL ''file:///rec/missing.m4a''] \<rparr>"
  by (simp add: sendAudioForTranscription_def sendAudioForTranscription_try_def ok_def emit_def
        initial_Controller_def example_upload_env_def)

section \<open>Properties of the capture handle\<close>

lemma open_captures_simps:
  "open_captures [] = 0"
  "open_captures (e # es) =
     (if created e then 1 else 0) - (if stopped e then 1 else 0) + open_captures es"
  "open_captures (xs @ ys) = open_captures xs + open_captures ys"
  by (simp_all add: open_captures_def)

subsection \<open>The pieces of startRecording make up the function\<close>

text \<open>
  Calling \<open>startRecording\<close> and resuming it four times with nothing in between is the
  uninterrupted run: the pieces are the function of the source, cut at its awaits, and a
  call always comes to its end.
\<close>

lemma startRecording_uninterrupted:
  "startRecording_resumes 4 env
     (fst (startRecording_press s), Some (snd (startRecording_press s)))
   = (startRecording env s, None)"
proof (cases "requestPermissionsAsync env")
  case Rejected
  then show ?thesis
    by (simp add: eval_nat_numeral startRecording_press_def startRecording_catch_def
          startRecording_def startRecording_try_def emit_def)
next
  case (Resolved st)
  show ?thesis
  proof (cases "st = ''granted''")
    case False
    then show ?thesis using Resolved
      by (simp add: eval_nat_numeral startRecording_press_def startRecording_def
            startRecording_try_def emit_def)
  next
    case True
    show ?thesis
    proof (cases "sound s")
      case None
      then show ?thesis using Resolved True
        by (cases "setAudioModeAsync env"; cases "createAsync env")
           (simp_all add: eval_nat_numeral startRecording_press_def startRecording_catch_def
              startRecording_def startRecording_try_def emit_def)
    next
      case (Some h)
      then show ?thesis using Resolved True
        by (cases "unloadAsync env"; cases "setAudioModeAsync env"; cases "createAsync env")
           (simp_all add: eval_nat_numeral startRecording_press_def startRecording_catch_def
              startRecording_def startRecording_try_def emit_def)
    qed
  qed
qed

subsection \<open>Stopping\<close>

text \<open>
  \<open>stopRecording\<close> is guarded: without a handle it does nothing. With a handle it clears
  the handle when the stop resolves and leaves it when the stop rejects.
\<close>

lemma stopRecording_idle: "recording s = None \<Longrightarrow> stopRecording env (s, g) = (s, g)"
  by (simp add: stopRecording_def stopRecording_try_def)

lemma recording_stopRecording:
  "recording s = Some h \<Longrightarrow>
     recording (fst (stopRecording env (s, g))) =
       (case stopAndUnloadAsync env of Resolves \<Rightarrow> None | Rejects \<Rightarrow> Some h)"
  by (auto simp: stopRecording_def stopRecording_try_def emit_def
        split: promise.splits io.splits option.splits)

subsection \<open>Two presses of the record button\<close>

text \<open>
  \<open>startRecording\<close> does not look at the \<^verbatim>\<open>recording\<close> cell. Resumed at its last wait on
  a screen that holds a handle, it stores the handle of the capture it has created over
  the one that is there, and stops nothing.
\<close>

lemma startRecording_overwrites_handle:
  "createAsync env = Resolved k \<Longrightarrow>
     startRecording_resume env Await_createAsync s
       = (s\<lparr>recording := Some k, trace := trace s @ [CreateRecording (Resolved k)]\<rparr>, None)"
  by (simp add: emit_def)

text \<open>
  Claim C7. While a capture handle exists, a second start-capture request is a no-op, and
  exactly one capture handle is active at all times. The code has no such guard. On the
  fresh screen the record button is pressed twice before the first call of
  \<open>startRecording\<close> has the answer to its permission request. The screen holds no handle
  after the first press, so the button is still bound to \<open>startRecording\<close> and the second
  press calls it again. Permission is granted and every call resolves: the first call
  creates capture 1 and stores its handle, the second call then creates capture 2 and
  stores its handle over the first. Two captures are open, the screen holds the handle of
  the second one, and capture 1 is never stopped.
\<close>

theorem double_press_opens_two_captures:
  "(let (s1, a1) = startRecording_press initial_Controller;
        (s2, a2) = startRecording_press s1;
        s3 = startRecording_finish (example_start_env (Resolved 1)) a1 s2;
        s4 = startRecording_finish (example_start_env (Resolved 2)) a2 s3
    in recordButton_onPress initial_Controller = Bound_startRecording
       \<and> recordButton_onPress s1 = Bound_startRecording
       \<and> recording s3 = Some 1
       \<and> open_captures (trace s3) = 1
       \<and> s4 = initial_Controller
                \<lparr> recording := Some 2,
                  trace := [RequestPermissions, RequestPermissions,
                            SetAudioMode True, CreateRecording (Resolved 1),
                            SetAudioMode True, CreateRecording (Resolved 2)] \<rparr>
       \<and> open_captures (trace s4) = 2)"
  by (simp add: startRecording_press_def startRecording_finish_def eval_nat_numeral
        recordButton_onPress_def initial_Controller_def example_start_env_def emit_def
        open_captures_def)

end
